theory Spec2Isabelle
  imports Complex_Main "HOL-Library.Sublist"
begin

section \<open>Guarded text generation and RAG retrieval: the client-side orchestration\<close>

text \<open>
  The notebooks call four external collaborators: the Bedrock runtime
  (\<^verbatim>\<open>apply_guardrail\<close>), a SageMaker endpoint (\<^verbatim>\<open>predictor.predict\<close>), a
  local embedding pipeline (\<^verbatim>\<open>embedder\<close>) and an OpenSearch client
  (\<^verbatim>\<open>opensearch_client.search\<close>). They are opaque: each is a transition of an
  arbitrary world state \<open>'w\<close> that yields either an exception or a response. Every
  function of the notebooks is a function from the world to its result, the list of
  effects it performed (in order) and the new world.
\<close>

subsection \<open>Exceptions\<close>

datatype exception =
    ClientError string
  | IndexError
  | KeyError string
  | OtherException string

text \<open>\<^verbatim>\<open>str(e)\<close>, as interpolated into the printed messages.\<close>

fun str_of :: "exception \<Rightarrow> string" where
  "str_of (ClientError m) = m"
| "str_of IndexError = ''list index out of range''"
| "str_of (KeyError k) = [CHR 0x27] @ k @ [CHR 0x27]"
| "str_of (OtherException m) = m"

subsection \<open>Requests and responses\<close>

text \<open>
  One element of the \<^verbatim>\<open>content\<close> list of an ApplyGuardrail request:
  \<^verbatim>\<open>{"text": {"text": ..., "qualifiers": [...]}}\<close>; the qualifiers are absent in the
  request built by \<^verbatim>\<open>apply_output_guardrail\<close>.
\<close>

record content_block =
  cb_text :: string
  cb_qualifiers :: "string list option"

record guardrail_request =
  guardrailIdentifier :: string
  guardrailVersion :: string
  source :: string
  content :: "content_block list"

text \<open>
  The ApplyGuardrail response is a dictionary; a key that is absent is \<open>None\<close>.
  Each element of \<^verbatim>\<open>outputs\<close> is a dictionary with an optional \<^verbatim>\<open>text\<close>.
\<close>

record guardrail_output =
  out_text :: "string option"

record guardrail_response =
  action :: "string option"
  outputs :: "guardrail_output list option"

record parameters =
  param_max_new_tokens :: int
  param_temperature :: real
  param_stop :: string

record payload =
  payload_inputs :: string
  payload_parameters :: parameters

text \<open>The deserialised JSON answer of the endpoint: a dictionary.\<close>

type_synonym predict_response = "string \<rightharpoonup> string"

text \<open>The body of the k-NN search: \<^verbatim>\<open>{"size": k, "query": {"knn": {"vector": {"vector": v, "k": k}}}}\<close>.\<close>

record search_body =
  body_size :: int
  knn_vector :: "real list"
  knn_k :: int

text \<open>A search hit; \<^verbatim>\<open>hit["_source"]\<close> is the stored document, a dictionary.\<close>

record hit =
  hit_source :: "(string \<rightharpoonup> string) option"

record search_response =
  hits_hits :: "hit list"

subsection \<open>The external services and the effects\<close>

record 'w services =
  apply_guardrail :: "guardrail_request \<Rightarrow> 'w \<Rightarrow> (exception + guardrail_response) \<times> 'w"
  predict :: "string \<Rightarrow> payload \<Rightarrow> 'w \<Rightarrow> (exception + predict_response) \<times> 'w"
  embedder :: "string \<Rightarrow> 'w \<Rightarrow> (exception + real list list list) \<times> 'w"
  search :: "string \<Rightarrow> search_body \<Rightarrow> 'w \<Rightarrow> (exception + search_response) \<times> 'w"

datatype pyval = PStr string | PList "string list"

datatype event =
    ApplyGuardrail guardrail_request "exception + guardrail_response"
  | Predict string payload "exception + predict_response"
  | Embed string "exception + real list list list"
  | Search string search_body "exception + search_response"
  | Print "pyval list"

type_synonym ('a, 'w) run = "'a \<times> event list \<times> 'w"

definition result_of :: "('a, 'w) run \<Rightarrow> 'a" where
  "result_of r = fst r"

definition events_of :: "('a, 'w) run \<Rightarrow> event list" where
  "events_of r = fst (snd r)"

definition world_of :: "('a, 'w) run \<Rightarrow> 'w" where
  "world_of r = snd (snd r)"

subsection \<open>The class \<^verbatim>\<open>TextGenerationWithGuardrails\<close>\<close>

record TextGenerationWithGuardrails =
  endpoint_name :: string
  model_id :: string
  guardrail_id :: string
  guardrail_version :: string

definition init :: "string \<Rightarrow> string \<Rightarrow> string \<Rightarrow> string \<Rightarrow> TextGenerationWithGuardrails" where
  "init en mi gi gv =
     \<lparr>endpoint_name = en, model_id = mi, guardrail_id = gi, guardrail_version = gv\<rparr>"

definition generate_text ::
  "TextGenerationWithGuardrails \<Rightarrow> 'w services \<Rightarrow> string \<Rightarrow> int \<Rightarrow> real \<Rightarrow> 'w
     \<Rightarrow> (exception + string, 'w) run" where
  "generate_text self sv inputs max_new_tokens temperature w =
     (let pl = \<lparr>payload_inputs = inputs,
                 payload_parameters = \<lparr>param_max_new_tokens = max_new_tokens,
                                        param_temperature = temperature,
                                        param_stop = ''<|eot_id|>''\<rparr>\<rparr>;
          (r, w') = predict sv (endpoint_name self) pl w
      in (case r of
            Inl e \<Rightarrow> Inl e
          | Inr response \<Rightarrow>
              Inr (case response ''generated_text'' of None \<Rightarrow> '''' | Some t \<Rightarrow> t),
          [Predict (endpoint_name self) pl r], w'))"

text \<open>The request that \<^verbatim>\<open>analyze_text\<close> builds.\<close>

definition analyze_request ::
  "TextGenerationWithGuardrails \<Rightarrow> string \<Rightarrow> string \<Rightarrow> string \<Rightarrow> string \<Rightarrow> guardrail_request" where
  "analyze_request self grounding_source query guard_content src =
     \<lparr>guardrailIdentifier = guardrail_id self,
      guardrailVersion = guardrail_version self,
      source = src,
      content =
        [\<lparr>cb_text = grounding_source, cb_qualifiers = Some [''grounding_source'']\<rparr>,
         \<lparr>cb_text = query, cb_qualifiers = Some [''query'']\<rparr>,
         \<lparr>cb_text = guard_content, cb_qualifiers = Some [''guard_content'']\<rparr>]\<rparr>"

text \<open>
  \<^verbatim>\<open>analyze_text\<close>. The handler catches \<^verbatim>\<open>ClientError\<close> only, prints and re-raises;
  any other exception leaves the \<^verbatim>\<open>try\<close> block untouched, among them the
  \<^verbatim>\<open>IndexError\<close> of \<^verbatim>\<open>response.get("outputs", [{}])[0]\<close> on a list that is present
  and empty.
\<close>

definition analyze_text ::
  "TextGenerationWithGuardrails \<Rightarrow> 'w services \<Rightarrow> string \<Rightarrow> string \<Rightarrow> string \<Rightarrow> string \<Rightarrow> 'w
     \<Rightarrow> (exception + bool \<times> string \<times> guardrail_response, 'w) run" where
  "analyze_text self sv grounding_source query guard_content src w =
     (let req = analyze_request self grounding_source query guard_content src;
          (r, w') = apply_guardrail sv req w
      in case r of
           Inl (ClientError m) \<Rightarrow>
             (Inl (ClientError m),
              [ApplyGuardrail req r, Print [PStr (''Error applying guardrail: '' @ m)]], w')
         | Inl e \<Rightarrow> (Inl e, [ApplyGuardrail req r], w')
         | Inr response \<Rightarrow>
             (let act = (case action response of None \<Rightarrow> '''' | Some a \<Rightarrow> a) in
              if act = ''NONE'' then (Inr (True, '''', response), [ApplyGuardrail req r], w')
              else if act = ''GUARDRAIL_INTERVENED'' then
                (case (case outputs response of None \<Rightarrow> [\<lparr>out_text = None\<rparr>] | Some os \<Rightarrow> os) of
                   [] \<Rightarrow> (Inl IndexError, [ApplyGuardrail req r], w')
                 | out # _ \<Rightarrow>
                     (Inr (False,
                           (case out_text out of None \<Rightarrow> ''Guardrail intervened'' | Some t \<Rightarrow> t),
                           response),
                      [ApplyGuardrail req r], w'))
              else (Inr (False, ''Unknown action: '' @ act, response), [ApplyGuardrail req r], w')))"

definition analyze_prompt ::
  "TextGenerationWithGuardrails \<Rightarrow> 'w services \<Rightarrow> string \<Rightarrow> string \<Rightarrow> 'w
     \<Rightarrow> (exception + bool \<times> string \<times> guardrail_response, 'w) run" where
  "analyze_prompt self sv grounding_source query w =
     analyze_text self sv grounding_source query query ''INPUT'' w"

definition analyze_output ::
  "TextGenerationWithGuardrails \<Rightarrow> 'w services \<Rightarrow> string \<Rightarrow> string \<Rightarrow> string \<Rightarrow> 'w
     \<Rightarrow> (exception + bool \<times> string \<times> guardrail_response, 'w) run" where
  "analyze_output self sv grounding_source query generated_text w =
     analyze_text self sv grounding_source query generated_text ''OUTPUT'' w"

definition generate_and_analyze ::
  "TextGenerationWithGuardrails \<Rightarrow> 'w services \<Rightarrow> string \<Rightarrow> string \<Rightarrow> int \<Rightarrow> real \<Rightarrow> 'w
     \<Rightarrow> (exception + bool \<times> string \<times> string, 'w) run" where
  "generate_and_analyze self sv grounding_source query max_new_tokens temperature w =
     (case analyze_prompt self sv grounding_source query w of
        (Inl e, ev1, w1) \<Rightarrow> (Inl e, ev1, w1)
      | (Inr (prompt_passed, prompt_message, _), ev1, w1) \<Rightarrow>
          if \<not> prompt_passed then (Inr (False, prompt_message, ''''), ev1, w1)
          else
            (case generate_text self sv query max_new_tokens temperature w1 of
               (Inl e, ev2, w2) \<Rightarrow> (Inl e, ev1 @ ev2, w2)
             | (Inr generated_text, ev2, w2) \<Rightarrow>
                 (case analyze_output self sv grounding_source query generated_text w2 of
                    (Inl e, ev3, w3) \<Rightarrow> (Inl e, ev1 @ ev2 @ ev3, w3)
                  | (Inr (output_passed, output_message, _), ev3, w3) \<Rightarrow>
                      if \<not> output_passed then (Inr (False, output_message, ''''), ev1 @ ev2 @ ev3, w3)
                      else (Inr (True, '''', generated_text), ev1 @ ev2 @ ev3, w3))))"

subsection \<open>The RAG notebook: output guardrail and context retrieval\<close>

text \<open>
  The functions of the RAG notebook read the notebook's global variables
  \<^verbatim>\<open>guardrail_id\<close>, \<^verbatim>\<open>guardrail_version\<close> and \<^verbatim>\<open>index_name\<close>.
\<close>

record notebook =
  nb_guardrail_id :: string
  nb_guardrail_version :: string
  nb_index_name :: string

text \<open>
  \<^verbatim>\<open>apply_output_guardrail\<close>; \<open>output_request\<close> is the request it builds. The
  handler is \<^verbatim>\<open>except Exception\<close>: it catches whatever the call raises and also the \<^verbatim>\<open>KeyError\<close> of
  \<^verbatim>\<open>response['outputs'][0]['text']\<close> on an output without text.
\<close>

definition output_request :: "notebook \<Rightarrow> string \<Rightarrow> guardrail_request" where
  "output_request nb output_text =
     \<lparr>guardrailIdentifier = nb_guardrail_id nb,
      guardrailVersion = nb_guardrail_version nb,
      source = ''OUTPUT'',
      content = [\<lparr>cb_text = output_text, cb_qualifiers = None\<rparr>]\<rparr>"

definition apply_output_guardrail ::
  "notebook \<Rightarrow> 'w services \<Rightarrow> string \<Rightarrow> 'w \<Rightarrow> (string, 'w) run" where
  "apply_output_guardrail nb sv output_text w =
     (let ev0 = Print [PStr ''Apply bedrock guardrails to the input using'',
                       PStr (nb_guardrail_id nb), PStr (nb_guardrail_version nb)];
          req = output_request nb output_text;
          (r, w') = apply_guardrail sv req w;
          warning = (\<lambda>e. Print [PStr (''Warning: Output guardrail application failed: '' @ str_of e)])
      in case r of
           Inl e \<Rightarrow> (output_text, [ev0, ApplyGuardrail req r, warning e], w')
         | Inr response \<Rightarrow>
             (case outputs response of
                None \<Rightarrow> (output_text, [ev0, ApplyGuardrail req r], w')
              | Some [] \<Rightarrow> (output_text, [ev0, ApplyGuardrail req r], w')
              | Some (out # _) \<Rightarrow>
                  (case out_text out of
                     None \<Rightarrow>
                       (output_text, [ev0, ApplyGuardrail req r, warning (KeyError ''text'')], w')
                   | Some t \<Rightarrow> (t, [ev0, ApplyGuardrail req r], w'))))"

text \<open>The comprehension \<^verbatim>\<open>[hit["_source"]["text"] for hit in response["hits"]["hits"]]\<close>.\<close>

fun hit_texts :: "hit list \<Rightarrow> exception + string list" where
  "hit_texts [] = Inr []"
| "hit_texts (h # hs) =
     (case hit_source h of
        None \<Rightarrow> Inl (KeyError ''_source'')
      | Some src \<Rightarrow>
          (case src ''text'' of
             None \<Rightarrow> Inl (KeyError ''text'')
           | Some t \<Rightarrow> (case hit_texts hs of Inl e \<Rightarrow> Inl e | Inr ts \<Rightarrow> Inr (t # ts))))"

definition retrieve_context ::
  "notebook \<Rightarrow> 'w services \<Rightarrow> string \<Rightarrow> int \<Rightarrow> 'w \<Rightarrow> (exception + string list, 'w) run" where
  "retrieve_context nb sv query k w =
     (let (re, w1) = embedder sv query w;
          ev1 = [Embed query re]
      in case re of
           Inl e \<Rightarrow> (Inl e, ev1, w1)
         | Inr emb \<Rightarrow>
             (case emb of
                [] \<Rightarrow> (Inl IndexError, ev1, w1)
              | row # _ \<Rightarrow>
                  (case row of
                     [] \<Rightarrow> (Inl IndexError, ev1, w1)
                   | query_embedding # _ \<Rightarrow>
                       (let body = \<lparr>body_size = k, knn_vector = query_embedding, knn_k = k\<rparr>;
                            (rs, w2) = search sv (nb_index_name nb) body w1;
                            ev2 = ev1 @ [Search (nb_index_name nb) body rs]
                        in case rs of
                             Inl e \<Rightarrow> (Inl e, ev2, w2)
                           | Inr response \<Rightarrow> (hit_texts (hits_hits response), ev2, w2)))))"

text \<open>\<^verbatim>\<open>get_opensearch_vector_context\<close>; the result \<open>None\<close> is Python's \<^verbatim>\<open>None\<close>.\<close>

definition get_opensearch_vector_context ::
  "notebook \<Rightarrow> 'w services \<Rightarrow> string \<Rightarrow> 'w \<Rightarrow> (exception + string option, 'w) run" where
  "get_opensearch_vector_context nb sv input_query w =
     (let query = ''What is Amazon?'' in
      case retrieve_context nb sv input_query 3 w of
        (Inl e, ev, w') \<Rightarrow> (Inl e, ev, w')
      | (Inr contexts, ev, w') \<Rightarrow>
          (let ev' = ev @ [Print [PStr ''Retrieved context: '', PList contexts]];
               context_prompt =
                 (if contexts \<noteq> []
                  then (if length contexts > 0 then Some (contexts ! 0) else None)
                  else None)
           in (Inr context_prompt, ev', w')))"

subsection \<open>Classifying the effects\<close>

text \<open>The three external operations of the guarded sequencer, and everything else.\<close>

datatype call = InputGuardrailCall | GenerationCall | OutputGuardrailCall | OtherCall

fun call_of :: "event \<Rightarrow> call option" where
  "call_of (ApplyGuardrail req r) =
     (if source req = ''INPUT'' then Some InputGuardrailCall
      else if source req = ''OUTPUT'' then Some OutputGuardrailCall
      else Some OtherCall)"
| "call_of (Predict en pl r) = Some GenerationCall"
| "call_of (Embed q r) = Some OtherCall"
| "call_of (Search i b r) = Some OtherCall"
| "call_of (Print xs) = None"

definition calls :: "event list \<Rightarrow> call list" where
  "calls evs = List.map_filter call_of evs"

text \<open>What an external service answered, whichever request it was sent.\<close>

datatype response =
    GuardrailAnswer "exception + guardrail_response"
  | PredictAnswer "exception + predict_response"
  | EmbedAnswer "exception + real list list list"
  | SearchAnswer "exception + search_response"

fun response_of :: "event \<Rightarrow> response option" where
  "response_of (ApplyGuardrail req r) = Some (GuardrailAnswer r)"
| "response_of (Predict en pl r) = Some (PredictAnswer r)"
| "response_of (Embed q r) = Some (EmbedAnswer r)"
| "response_of (Search i b r) = Some (SearchAnswer r)"
| "response_of (Print xs) = None"

definition responses :: "event list \<Rightarrow> response list" where
  "responses evs = List.map_filter response_of evs"

subsection \<open>A concrete environment\<close>

text \<open>
  A small executable environment on which the theorems are exercised. Its world state
  counts the requests served. The guardrail looks at the last content block: it
  intervenes on \<open>unsafe\<close>, intervenes with an empty \<open>outputs\<close> list on \<open>void\<close>, is
  unreachable on \<open>outage\<close> and lets everything else pass. The endpoint answers a
  few fixed prompts; the search rejects a negative \<open>size\<close> and otherwise returns the
  first \<open>size\<close> documents of a fixed corpus.
\<close>

definition example_guardrail ::
  "guardrail_request \<Rightarrow> nat \<Rightarrow> (exception + guardrail_response) \<times> nat" where
  "example_guardrail req n =
     (let t = (case content req of [] \<Rightarrow> '''' | b # bs \<Rightarrow> cb_text (last (b # bs))) in
      (if t = ''unsafe'' then
         Inr \<lparr>action = Some ''GUARDRAIL_INTERVENED'',
              outputs = Some [\<lparr>out_text = Some ''Sorry, I cannot answer that.''\<rparr>]\<rparr>
       else if t = ''void'' then
         Inr \<lparr>action = Some ''GUARDRAIL_INTERVENED'', outputs = Some []\<rparr>
       else if t = ''outage'' then Inl (ClientError ''ThrottlingException'')
       else Inr \<lparr>action = Some ''NONE'', outputs = None\<rparr>,
       Suc n))"

definition example_predict ::
  "string \<Rightarrow> payload \<Rightarrow> nat \<Rightarrow> (exception + predict_response) \<times> nat" where
  "example_predict en pl n =
     (if payload_inputs pl = ''say unsafe'' then Inr [''generated_text'' \<mapsto> ''unsafe'']
      else if payload_inputs pl = ''say outage'' then Inr [''generated_text'' \<mapsto> ''outage'']
      else if payload_inputs pl = ''say nothing'' then Inr Map.empty
      else Inr [''generated_text'' \<mapsto> ''Paris''],
      Suc n)"

definition example_corpus :: "hit list" where
  "example_corpus =
     [\<lparr>hit_source = Some [''text'' \<mapsto> ''first passage'']\<rparr>,
      \<lparr>hit_source = Some [''text'' \<mapsto> ''second passage'']\<rparr>,
      \<lparr>hit_source = Some [''text'' \<mapsto> ''third passage'']\<rparr>,
      \<lparr>hit_source = Some [''text'' \<mapsto> ''fourth passage'']\<rparr>]"

definition example_embedder :: "string \<Rightarrow> nat \<Rightarrow> (exception + real list list list) \<times> nat" where
  "example_embedder q n = (Inr [[[1, 0], [0, 1]]], Suc n)"

definition example_search ::
  "string \<Rightarrow> search_body \<Rightarrow> nat \<Rightarrow> (exception + search_response) \<times> nat" where
  "example_search i body n =
     (if body_size body < 0 then Inl (OtherException ''illegal_argument_exception'')
      else if i = ''empty-index'' then Inr \<lparr>hits_hits = []\<rparr>
      else Inr \<lparr>hits_hits = take (nat (body_size body)) example_corpus\<rparr>,
      Suc n)"

definition example_services :: "nat services" where
  "example_services =
     \<lparr>apply_guardrail = example_guardrail, predict = example_predict,
      embedder = example_embedder, search = example_search\<rparr>"

definition example_self :: TextGenerationWithGuardrails where
  "example_self = init ''llama-endpoint'' ''llama-3'' ''gr-123'' ''DRAFT''"

definition example_notebook :: notebook where
  "example_notebook =
     \<lparr>nb_guardrail_id = ''gr-123'', nb_guardrail_version = ''1'', nb_index_name = ''rag-index''\<rparr>"

section \<open>Properties\<close>

subsection \<open>Auxiliary facts\<close>

lemma calls_simps [simp]:
  "calls [] = []"
  "calls (e # es) = (case call_of e of None \<Rightarrow> calls es | Some c \<Rightarrow> c # calls es)"
  "calls (xs @ ys) = calls xs @ calls ys"
  by (simp_all add: calls_def List.map_filter_def split: option.splits)

lemma responses_simps [simp]:
  "responses [] = []"
  "responses (e # es) =
     (case response_of e of None \<Rightarrow> responses es | Some c \<Rightarrow> c # responses es)"
  "responses (xs @ ys) = responses xs @ responses ys"
  by (simp_all add: responses_def List.map_filter_def split: option.splits)

text \<open>
  One run of \<^verbatim>\<open>analyze_text\<close> sends exactly one request, the one built from its
  arguments, and does nothing else but print.
\<close>

lemma analyze_text_shape:
  assumes "analyze_text self sv gs q gc src w = (res, evs, w')"
  shows "w' = snd (apply_guardrail sv (analyze_request self gs q gc src) w)"
    and "\<exists>ps. evs = ApplyGuardrail (analyze_request self gs q gc src)
                    (fst (apply_guardrail sv (analyze_request self gs q gc src) w)) # ps
              \<and> calls ps = [] \<and> responses ps = [] \<and> (\<forall>en pl r. Predict en pl r \<notin> set ps)"
  using assms
  by (auto simp: analyze_text_def Let_def
      split: prod.splits sum.splits exception.splits if_splits list.splits option.splits)

lemma generate_text_shape:
  assumes "generate_text self sv q mnt temp w = (res, evs, w')"
  shows "\<exists>pl. evs = [Predict (endpoint_name self) pl (fst (predict sv (endpoint_name self) pl w))]
            \<and> w' = snd (predict sv (endpoint_name self) pl w)
            \<and> res = (case fst (predict sv (endpoint_name self) pl w) of
                       Inl e \<Rightarrow> Inl e
                     | Inr response \<Rightarrow>
                         Inr (case response ''generated_text'' of None \<Rightarrow> '''' | Some t \<Rightarrow> t))"
  using assms
  by (auto simp: generate_text_def Let_def split: prod.splits sum.splits)

subsection \<open>The sequencer is a linear three-step pipeline\<close>

text \<open>
  Claim C6. Every invocation of \<^verbatim>\<open>generate_and_analyze\<close> performs, as its external
  calls and in this order, one input guardrail call, then at most one generation call,
  then at most one output guardrail call: the sequence of its calls is one of the three
  non-empty prefixes of (input guardrail, generation, output guardrail). Nothing is
  retried or repeated.
\<close>

theorem generate_and_analyze_linear_pipeline:
  "calls (events_of (generate_and_analyze self sv gs q mnt temp w)) \<in>
     {[InputGuardrailCall],
      [InputGuardrailCall, GenerationCall],
      [InputGuardrailCall, GenerationCall, OutputGuardrailCall]}"
proof -
  obtain r1 e1 w1 where a1: "analyze_prompt self sv gs q w = (r1, e1, w1)"
    by (metis prod_cases3)
  have c1: "calls e1 = [InputGuardrailCall]"
    using analyze_text_shape(2)[OF a1[unfolded analyze_prompt_def]]
    by (auto simp: analyze_request_def)
  show ?thesis
  proof (cases "\<exists>m d. r1 = Inr (True, m, d)")
    case False
    then have "events_of (generate_and_analyze self sv gs q mnt temp w) = e1"
      using a1 by (auto simp: generate_and_analyze_def events_of_def split: sum.splits prod.splits)
    then show ?thesis using c1 by simp
  next
    case True
    then obtain m d where r1: "r1 = Inr (True, m, d)" by blast
    obtain r2 e2 w2 where a2: "generate_text self sv q mnt temp w1 = (r2, e2, w2)"
      by (metis prod_cases3)
    have c2: "calls e2 = [GenerationCall]"
      using generate_text_shape[OF a2] by auto
    show ?thesis
    proof (cases r2)
      case (Inl e)
      then have "events_of (generate_and_analyze self sv gs q mnt temp w) = e1 @ e2"
        using a1 r1 a2 by (simp add: generate_and_analyze_def events_of_def)
      then show ?thesis using c1 c2 by simp
    next
      case (Inr gt)
      obtain r3 e3 w3 where a3: "analyze_output self sv gs q gt w2 = (r3, e3, w3)"
        by (metis prod_cases3)
      have c3: "calls e3 = [OutputGuardrailCall]"
        using analyze_text_shape(2)[OF a3[unfolded analyze_output_def]]
        by (auto simp: analyze_request_def)
      have "events_of (generate_and_analyze self sv gs q mnt temp w) = e1 @ e2 @ e3"
        using a1 r1 a2 Inr a3
        by (auto simp add: generate_and_analyze_def events_of_def split: sum.splits)
      then show ?thesis using c1 c2 c3 by simp
    qed
  qed
qed

subsection \<open>Facts about the guardrail check and the three steps of the sequencer\<close>

lemma analyze_text_prints:
  assumes "analyze_text self sv gs q gc src w = (res, evs, w')"
  shows "\<exists>ps. evs = ApplyGuardrail (analyze_request self gs q gc src)
                    (fst (apply_guardrail sv (analyze_request self gs q gc src) w)) # ps
              \<and> (\<forall>e \<in> set ps. \<exists>xs. e = Print xs)"
  using assms
  by (auto simp: analyze_text_def Let_def
      split: prod.splits sum.splits exception.splits if_splits list.splits option.splits)

lemma analyze_text_raises_iff:
  "result_of (analyze_text self sv gs q gc src w) = Inl (ClientError m) \<longleftrightarrow>
   fst (apply_guardrail sv (analyze_request self gs q gc src) w) = Inl (ClientError m)"
proof -
  obtain r u where a: "apply_guardrail sv (analyze_request self gs q gc src) w = (r, u)"
    by (cases "apply_guardrail sv (analyze_request self gs q gc src) w")
  show ?thesis
    by (simp add: analyze_text_def Let_def result_of_def a
      split: sum.split exception.split list.split option.split)
qed

lemma analyze_text_result_determined:
  assumes "fst (apply_guardrail sv1 (analyze_request self1 gs1 q1 gc1 src1) w1) =
           fst (apply_guardrail sv2 (analyze_request self2 gs2 q2 gc2 src2) w2)"
  shows "result_of (analyze_text self1 sv1 gs1 q1 gc1 src1 w1) =
         result_of (analyze_text self2 sv2 gs2 q2 gc2 src2 w2)"
proof -
  obtain r u1 where a1: "apply_guardrail sv1 (analyze_request self1 gs1 q1 gc1 src1) w1 = (r, u1)"
    by (cases "apply_guardrail sv1 (analyze_request self1 gs1 q1 gc1 src1) w1")
  obtain u2 where a2: "apply_guardrail sv2 (analyze_request self2 gs2 q2 gc2 src2) w2 = (r, u2)"
    using assms a1 by (cases "apply_guardrail sv2 (analyze_request self2 gs2 q2 gc2 src2) w2") simp
  show ?thesis
    by (simp add: analyze_text_def Let_def result_of_def a1 a2
      split: sum.split exception.split list.split option.split)
qed

text \<open>The run of the sequencer, unfolded along its three steps.\<close>

lemma generate_and_analyze_blocked:
  assumes "analyze_prompt self sv gs q w = (r1, e1, w1)" and "\<nexists>m d. r1 = Inr (True, m, d)"
  shows "generate_and_analyze self sv gs q mnt temp w =
           (case r1 of Inl e \<Rightarrow> Inl e | Inr (p, m, d) \<Rightarrow> Inr (False, m, ''''), e1, w1)"
  using assms by (auto simp: generate_and_analyze_def split: sum.splits prod.splits)

lemma generate_and_analyze_generation_failed:
  assumes "analyze_prompt self sv gs q w = (Inr (True, m, d), e1, w1)"
      and "generate_text self sv q mnt temp w1 = (Inl e, e2, w2)"
  shows "generate_and_analyze self sv gs q mnt temp w = (Inl e, e1 @ e2, w2)"
  using assms by (simp add: generate_and_analyze_def)

lemma generate_and_analyze_full:
  assumes "analyze_prompt self sv gs q w = (Inr (True, m, d), e1, w1)"
      and "generate_text self sv q mnt temp w1 = (Inr gt, e2, w2)"
      and "analyze_output self sv gs q gt w2 = (r3, e3, w3)"
  shows "generate_and_analyze self sv gs q mnt temp w =
           (case r3 of Inl e \<Rightarrow> Inl e
            | Inr (p, om, od) \<Rightarrow> if p then Inr (True, '''', gt) else Inr (False, om, ''''),
            e1 @ e2 @ e3, w3)"
  using assms by (auto simp: generate_and_analyze_def split: sum.splits prod.splits)

lemma analyze_text_responses:
  assumes "analyze_text self sv gs q gc src w = (res, evs, w')"
  shows "responses evs = [GuardrailAnswer (fst (apply_guardrail sv (analyze_request self gs q gc src) w))]"
  using analyze_text_shape(2)[OF assms] by auto

lemma generate_text_responses:
  assumes "generate_text self sv q mnt temp w = (res, evs, w')"
  shows "\<exists>p. responses evs = [PredictAnswer p] \<and>
             res = (case p of Inl e \<Rightarrow> Inl e
                    | Inr response \<Rightarrow>
                        Inr (case response ''generated_text'' of None \<Rightarrow> '''' | Some t \<Rightarrow> t))"
  using generate_text_shape[OF assms] by auto

subsection \<open>The input guardrail comes first and gates the generation\<close>

text \<open>
  Claim C1. For every query, the first effect of \<^verbatim>\<open>generate_and_analyze\<close> is the
  input guardrail request (source \<open>INPUT\<close>, the query as guarded content), sent in the
  initial world. Whenever that check returns "not passed" with a message, the sequencer
  returns \<open>(False, message, "")\<close>; and whenever the check does not pass (it returns
  "not passed" or raises), the text-generation endpoint is never invoked.
\<close>

theorem generate_and_analyze_input_guardrail_first:
  "(\<exists>rest. events_of (generate_and_analyze self sv gs q mnt temp w) =
       ApplyGuardrail (analyze_request self gs q q ''INPUT'')
         (fst (apply_guardrail sv (analyze_request self gs q q ''INPUT'') w)) # rest) \<and>
   (\<forall>m d. result_of (analyze_prompt self sv gs q w) = Inr (False, m, d) \<longrightarrow>
      result_of (generate_and_analyze self sv gs q mnt temp w) = Inr (False, m, '''')) \<and>
   ((\<forall>m d. result_of (analyze_prompt self sv gs q w) \<noteq> Inr (True, m, d)) \<longrightarrow>
      GenerationCall \<notin> set (calls (events_of (generate_and_analyze self sv gs q mnt temp w))))"
proof -
  obtain r1 e1 w1 where a1: "analyze_prompt self sv gs q w = (r1, e1, w1)"
    by (metis prod_cases3)
  from analyze_text_shape(2)[OF a1[unfolded analyze_prompt_def]]
  obtain ps where e1: "e1 = ApplyGuardrail (analyze_request self gs q q ''INPUT'')
         (fst (apply_guardrail sv (analyze_request self gs q q ''INPUT'') w)) # ps"
    and ps: "calls ps = []" by blast
  have "\<exists>rest. events_of (generate_and_analyze self sv gs q mnt temp w) = e1 @ rest"
    using a1
    by (simp add: generate_and_analyze_def events_of_def split: sum.split prod.split)
  then have first: "\<exists>rest. events_of (generate_and_analyze self sv gs q mnt temp w) =
       ApplyGuardrail (analyze_request self gs q q ''INPUT'')
         (fst (apply_guardrail sv (analyze_request self gs q q ''INPUT'') w)) # rest"
    unfolding e1 by auto
  have blocked: "result_of (generate_and_analyze self sv gs q mnt temp w) = Inr (False, m, '''')"
    if "r1 = Inr (False, m, d)" for m d
    using generate_and_analyze_blocked[OF a1, of mnt temp] that by (simp add: result_of_def)
  have nogen: "GenerationCall \<notin> set (calls (events_of (generate_and_analyze self sv gs q mnt temp w)))"
    if "\<forall>m d. r1 \<noteq> Inr (True, m, d)"
  proof -
    have "events_of (generate_and_analyze self sv gs q mnt temp w) = e1"
      using generate_and_analyze_blocked[OF a1, of mnt temp] that by (simp add: events_of_def)
    then show ?thesis using ps by (simp add: e1 analyze_request_def)
  qed
  have r: "result_of (analyze_prompt self sv gs q w) = r1"
    using a1 by (simp add: result_of_def)
  show ?thesis unfolding r using first blocked nogen by blast
qed

subsection \<open>A blocked output is withheld\<close>

text \<open>
  Claim C2. If the input guardrail check passes, the endpoint returns a text, and the
  output guardrail check applied to that text does not pass, then
  \<^verbatim>\<open>generate_and_analyze\<close> returns \<open>(False, output guardrail message, "")\<close>: the
  generated text is not handed to the caller.
\<close>

theorem generate_and_analyze_withholds_blocked_output:
  assumes "result_of (analyze_prompt self sv gs q w) = Inr (True, pm, pd)"
      and "generate_text self sv q mnt temp (world_of (analyze_prompt self sv gs q w)) =
             (Inr gt, e2, w2)"
      and "result_of (analyze_output self sv gs q gt w2) = Inr (False, om, od)"
    shows "result_of (generate_and_analyze self sv gs q mnt temp w) = Inr (False, om, '''')"
proof -
  obtain e1 w1 where a1: "analyze_prompt self sv gs q w = (Inr (True, pm, pd), e1, w1)"
    using assms(1) by (cases "analyze_prompt self sv gs q w") (simp add: result_of_def)
  obtain e3 w3 where a3: "analyze_output self sv gs q gt w2 = (Inr (False, om, od), e3, w3)"
    using assms(3) by (cases "analyze_output self sv gs q gt w2") (simp add: result_of_def)
  have a2: "generate_text self sv q mnt temp w1 = (Inr gt, e2, w2)"
    using assms(2) a1 by (simp add: world_of_def)
  show ?thesis
    using generate_and_analyze_full[OF a1 a2 a3] by (simp add: result_of_def)
qed

subsection \<open>When both checks pass the generated text is returned\<close>

text \<open>
  Claim C3. If the input guardrail check passes, the endpoint answers with a dictionary
  \<open>response\<close>, and the output guardrail check passes on the text \<open>gt\<close> that
  \<^verbatim>\<open>generate_text\<close> extracts from it, then \<^verbatim>\<open>generate_and_analyze\<close> returns
  \<open>(True, "", gt)\<close>, where \<open>gt\<close> is the \<open>generated_text\<close> field of the response, or the
  empty string when the field is absent, and is what \<^verbatim>\<open>generate_text\<close> returns.
\<close>

theorem generate_and_analyze_returns_generated_text:
  assumes "result_of (analyze_prompt self sv gs q w) = Inr (True, pm, pd)"
      and "predict sv (endpoint_name self)
             \<lparr>payload_inputs = q,
              payload_parameters = \<lparr>param_max_new_tokens = mnt, param_temperature = temp,
                                     param_stop = ''<|eot_id|>''\<rparr>\<rparr>
             (world_of (analyze_prompt self sv gs q w)) = (Inr response, w2)"
      and "gt = (case response ''generated_text'' of None \<Rightarrow> '''' | Some t \<Rightarrow> t)"
      and "result_of (analyze_output self sv gs q gt w2) = Inr (True, om, od)"
    shows "result_of (generate_text self sv q mnt temp (world_of (analyze_prompt self sv gs q w)))
             = Inr gt
         \<and> result_of (generate_and_analyze self sv gs q mnt temp w) = Inr (True, '''', gt)"
proof -
  obtain e1 w1 where a1: "analyze_prompt self sv gs q w = (Inr (True, pm, pd), e1, w1)"
    using assms(1) by (cases "analyze_prompt self sv gs q w") (simp add: result_of_def)
  obtain e3 w3 where a3: "analyze_output self sv gs q gt w2 = (Inr (True, om, od), e3, w3)"
    using assms(4) by (cases "analyze_output self sv gs q gt w2") (simp add: result_of_def)
  have w1: "world_of (analyze_prompt self sv gs q w) = w1"
    using a1 by (simp add: world_of_def)
  obtain e2 where a2: "generate_text self sv q mnt temp w1 = (Inr gt, e2, w2)"
    using assms(2,3) unfolding w1 by (simp add: generate_text_def)
  show ?thesis
    using generate_and_analyze_full[OF a1 a2 a3] a2 w1 by (simp add: result_of_def)
qed

subsection \<open>The result is a function of the services' answers\<close>

text \<open>
  Claim C7. Take two runs of \<^verbatim>\<open>generate_and_analyze\<close> on the same object with the
  same grounding source, query and parameters, against any two environments (of
  possibly different kinds) in any two world states, among them the state left behind by
  an earlier run. If the guardrail and the endpoint give the same answers in both runs,
  both runs return the same result: nothing but the answers of the services decides it.
\<close>

theorem generate_and_analyze_deterministic:

  fixes sv1 :: "'a services" and sv2 :: "'b services"
  assumes same: "responses (events_of (generate_and_analyze self sv1 gs q mnt temp w1)) =
                 responses (events_of (generate_and_analyze self sv2 gs q mnt temp w2))"
  shows "result_of (generate_and_analyze self sv1 gs q mnt temp w1) =
         result_of (generate_and_analyze self sv2 gs q mnt temp w2)"
proof -
  let ?G1 = "generate_and_analyze self sv1 gs q mnt temp w1"
  let ?G2 = "generate_and_analyze self sv2 gs q mnt temp w2"
  let ?req = "analyze_request self gs q q ''INPUT''"
  obtain r1 e1 u1 where a1: "analyze_prompt self sv1 gs q w1 = (r1, e1, u1)"
    by (metis prod_cases3)
  obtain r1' e1' u1' where b1: "analyze_prompt self sv2 gs q w2 = (r1', e1', u1')"
    by (metis prod_cases3)
  have ra1: "responses e1 = [GuardrailAnswer (fst (apply_guardrail sv1 ?req w1))]"
    using analyze_text_responses[OF a1[unfolded analyze_prompt_def]] .
  have rb1: "responses e1' = [GuardrailAnswer (fst (apply_guardrail sv2 ?req w2))]"
    using analyze_text_responses[OF b1[unfolded analyze_prompt_def]] .
  have pa: "\<exists>rest. events_of ?G1 = e1 @ rest"
    using a1 by (simp add: generate_and_analyze_def events_of_def split: sum.split prod.split)
  have pb: "\<exists>rest. events_of ?G2 = e1' @ rest"
    using b1 by (simp add: generate_and_analyze_def events_of_def split: sum.split prod.split)
  have "fst (apply_guardrail sv1 ?req w1) = fst (apply_guardrail sv2 ?req w2)"
    using same pa pb ra1 rb1 by auto
  then have "result_of (analyze_prompt self sv1 gs q w1) = result_of (analyze_prompt self sv2 gs q w2)"
    unfolding analyze_prompt_def by (rule analyze_text_result_determined)
  then have r1: "r1' = r1" using a1 b1 by (simp add: result_of_def)
  show ?thesis
  proof (cases "\<exists>m d. r1 = Inr (True, m, d)")
    case False
    then show ?thesis
      using generate_and_analyze_blocked[OF a1, of mnt temp]
        generate_and_analyze_blocked[OF b1[unfolded r1], of mnt temp]
      by (simp add: result_of_def)
  next
    case True
    then obtain m d where p1: "r1 = Inr (True, m, d)" by blast
    note a1' = a1[unfolded p1] and b1' = b1[unfolded r1 p1]
    obtain r2 e2 u2 where a2: "generate_text self sv1 q mnt temp u1 = (r2, e2, u2)"
      by (metis prod_cases3)
    obtain r2' e2' u2' where b2: "generate_text self sv2 q mnt temp u1' = (r2', e2', u2')"
      by (metis prod_cases3)
    from generate_text_responses[OF a2] obtain p where
      ra2: "responses e2 = [PredictAnswer p]" and
      r2: "r2 = (case p of Inl e \<Rightarrow> Inl e
                 | Inr response \<Rightarrow>
                     Inr (case response ''generated_text'' of None \<Rightarrow> '''' | Some t \<Rightarrow> t))"
      by blast
    from generate_text_responses[OF b2] obtain p' where
      rb2: "responses e2' = [PredictAnswer p']" and
      r2': "r2' = (case p' of Inl e \<Rightarrow> Inl e
                 | Inr response \<Rightarrow>
                     Inr (case response ''generated_text'' of None \<Rightarrow> '''' | Some t \<Rightarrow> t))"
      by blast
    have pa2: "\<exists>rest. events_of ?G1 = e1 @ e2 @ rest"
      using a1' a2 by (simp add: generate_and_analyze_def events_of_def split: sum.split prod.split)
    have pb2: "\<exists>rest. events_of ?G2 = e1' @ e2' @ rest"
      using b1' b2 by (simp add: generate_and_analyze_def events_of_def split: sum.split prod.split)
    have "p' = p"
      using same pa2 pb2 ra1 rb1 ra2 rb2 by auto
    then have r2eq: "r2' = r2" using r2 r2' by simp
    show ?thesis
    proof (cases r2)
      case (Inl e)
      show ?thesis
        using generate_and_analyze_generation_failed[OF a1' a2[unfolded Inl]]
          generate_and_analyze_generation_failed[OF b1' b2[unfolded r2eq Inl]]
        by (simp add: result_of_def)
    next
      case (Inr gt)
      let ?out = "analyze_request self gs q gt ''OUTPUT''"
      obtain r3 e3 u3 where a3: "analyze_output self sv1 gs q gt u2 = (r3, e3, u3)"
        by (metis prod_cases3)
      obtain r3' e3' u3' where b3: "analyze_output self sv2 gs q gt u2' = (r3', e3', u3')"
        by (metis prod_cases3)
      have ra3: "responses e3 = [GuardrailAnswer (fst (apply_guardrail sv1 ?out u2))]"
        using analyze_text_responses[OF a3[unfolded analyze_output_def]] .
      have rb3: "responses e3' = [GuardrailAnswer (fst (apply_guardrail sv2 ?out u2'))]"
        using analyze_text_responses[OF b3[unfolded analyze_output_def]] .
      note g1 = generate_and_analyze_full[OF a1' a2[unfolded Inr] a3]
      note g2 = generate_and_analyze_full[OF b1' b2[unfolded r2eq Inr] b3]
      have "fst (apply_guardrail sv1 ?out u2) = fst (apply_guardrail sv2 ?out u2')"
        using same ra1 rb1 ra2 rb2 ra3 rb3 by (simp add: g1 g2 events_of_def)
      then have "result_of (analyze_output self sv1 gs q gt u2) =
                 result_of (analyze_output self sv2 gs q gt u2')"
        unfolding analyze_output_def by (rule analyze_text_result_determined)
      then have "r3' = r3" using a3 b3 by (simp add: result_of_def)
      then show ?thesis by (simp add: g1 g2 result_of_def)
    qed
  qed
qed

subsection \<open>A service error of the guardrail is propagated\<close>

text \<open>
  Claim C10. If the \<^verbatim>\<open>apply_guardrail\<close> call inside \<^verbatim>\<open>analyze_text\<close> raises a
  \<^verbatim>\<open>ClientError\<close>, then \<^verbatim>\<open>analyze_text\<close> raises that same exception; and if any
  guardrail call made during \<^verbatim>\<open>generate_and_analyze\<close> raised a \<^verbatim>\<open>ClientError\<close>, the
  sequencer raises it too: no triple and no fallback text is returned.
\<close>

theorem analyze_text_client_error_propagates:
  "(fst (apply_guardrail sv (analyze_request self gs q gc src) w) = Inl (ClientError m) \<longrightarrow>
      result_of (analyze_text self sv gs q gc src w) = Inl (ClientError m)) \<and>
   (ApplyGuardrail req (Inl (ClientError m))
      \<in> set (events_of (generate_and_analyze self sv gs q mnt temp w)) \<longrightarrow>
      result_of (generate_and_analyze self sv gs q mnt temp w) = Inl (ClientError m))"
proof (intro conjI impI)
  assume "fst (apply_guardrail sv (analyze_request self gs q gc src) w) = Inl (ClientError m)"
  then show "result_of (analyze_text self sv gs q gc src w) = Inl (ClientError m)"
    by (simp add: analyze_text_raises_iff)
next
  let ?G = "generate_and_analyze self sv gs q mnt temp w"
  let ?E = "ApplyGuardrail req (Inl (ClientError m))"
  assume ev: "?E \<in> set (events_of ?G)"
  have raised: "r = Inl (ClientError m)"
    if a: "analyze_text self sv gs q gc src u = (r, es, u')" and i: "?E \<in> set es"
    for gc src u r es u'
  proof -
    from analyze_text_prints[OF a] obtain ps where
      es: "es = ApplyGuardrail (analyze_request self gs q gc src)
                 (fst (apply_guardrail sv (analyze_request self gs q gc src) u)) # ps"
      and ps: "\<forall>e \<in> set ps. \<exists>xs. e = Print xs" by blast
    have "?E \<notin> set ps" using ps by blast
    then have "fst (apply_guardrail sv (analyze_request self gs q gc src) u) = Inl (ClientError m)"
      using i unfolding es by simp
    then have "result_of (analyze_text self sv gs q gc src u) = Inl (ClientError m)"
      by (simp add: analyze_text_raises_iff)
    then show ?thesis using a by (simp add: result_of_def)
  qed
  obtain r1 e1 w1 where a1: "analyze_prompt self sv gs q w = (r1, e1, w1)"
    by (metis prod_cases3)
  note in1 = raised[OF a1[unfolded analyze_prompt_def]]
  show "result_of ?G = Inl (ClientError m)"
  proof (cases "\<exists>pm pd. r1 = Inr (True, pm, pd)")
    case False
    then have g: "?G = (case r1 of Inl e \<Rightarrow> Inl e | Inr (p, m, d) \<Rightarrow> Inr (False, m, ''''), e1, w1)"
      using generate_and_analyze_blocked[OF a1, of mnt temp] by simp
    then have "?E \<in> set e1"
      using ev by (simp add: events_of_def)
    then have "r1 = Inl (ClientError m)" by (rule in1)
    then show ?thesis using g by (simp add: result_of_def)
  next
    case True
    then obtain pm pd where r1: "r1 = Inr (True, pm, pd)" by blast
    have not1: "?E \<notin> set e1"
      using in1 r1 by auto
    obtain r2 e2 w2 where a2: "generate_text self sv q mnt temp w1 = (r2, e2, w2)"
      by (metis prod_cases3)
    have not2: "?E \<notin> set e2"
      using generate_text_shape[OF a2] by auto
    show ?thesis
    proof (cases r2)
      case (Inl e)
      have "?G = (Inl e, e1 @ e2, w2)"
        using generate_and_analyze_generation_failed[OF a1[unfolded r1] a2[unfolded Inl]] by simp
      then show ?thesis using ev not1 not2 by (simp add: events_of_def)
    next
      case (Inr gt)
      obtain r3 e3 w3 where a3: "analyze_output self sv gs q gt w2 = (r3, e3, w3)"
        by (metis prod_cases3)
      note in3 = raised[OF a3[unfolded analyze_output_def]]
      have g: "?G = (case r3 of Inl e \<Rightarrow> Inl e
            | Inr (p, om, od) \<Rightarrow> if p then Inr (True, '''', gt) else Inr (False, om, ''''),
            e1 @ e2 @ e3, w3)"
        using generate_and_analyze_full[OF a1[unfolded r1] a2[unfolded Inr] a3] by simp
      then have "?E \<in> set e3"
        using ev not1 not2 by (simp add: events_of_def)
      then have "r3 = Inl (ClientError m)" by (rule in3)
      then show ?thesis using g by (simp add: result_of_def)
    qed
  qed
qed

subsection \<open>The verdict of the guardrail check\<close>

text \<open>
  What \<^verbatim>\<open>analyze_text\<close> makes of an answer of the guardrail service: it passes exactly
  on the action \<open>NONE\<close>; on \<open>GUARDRAIL_INTERVENED\<close> it fails with the text of the first
  output, or with the default message when \<open>outputs\<close> is absent or the first output has
  no text, and raises \<^verbatim>\<open>IndexError\<close> when \<open>outputs\<close> is present and empty; on any other
  action, or none, it fails with the "Unknown action" message.
\<close>

lemma analyze_text_verdict:
  assumes "fst (apply_guardrail sv (analyze_request self gs q gc src) w) = Inr response"
  shows "(\<exists>m d. result_of (analyze_text self sv gs q gc src w) = Inr (True, m, d)) \<longleftrightarrow>
           action response = Some ''NONE''"
    and "action response = Some ''NONE'' \<Longrightarrow>
           result_of (analyze_text self sv gs q gc src w) = Inr (True, '''', response)"
    and "action response = Some ''GUARDRAIL_INTERVENED'' \<Longrightarrow> outputs response = None \<Longrightarrow>
           result_of (analyze_text self sv gs q gc src w) =
             Inr (False, ''Guardrail intervened'', response)"
    and "action response = Some ''GUARDRAIL_INTERVENED'' \<Longrightarrow>
         outputs response = Some (out # rest) \<Longrightarrow>
           result_of (analyze_text self sv gs q gc src w) =
             Inr (False, (case out_text out of None \<Rightarrow> ''Guardrail intervened'' | Some t \<Rightarrow> t),
                  response)"
    and "action response = Some ''GUARDRAIL_INTERVENED'' \<Longrightarrow> outputs response = Some [] \<Longrightarrow>
           result_of (analyze_text self sv gs q gc src w) = Inl IndexError"
    and "action response = Some a \<Longrightarrow> a \<noteq> ''NONE'' \<Longrightarrow> a \<noteq> ''GUARDRAIL_INTERVENED'' \<Longrightarrow>
           result_of (analyze_text self sv gs q gc src w) =
             Inr (False, ''Unknown action: '' @ a, response)"
    and "action response = None \<Longrightarrow>
           result_of (analyze_text self sv gs q gc src w) =
             Inr (False, ''Unknown action: '', response)"
proof -
  obtain u where a: "apply_guardrail sv (analyze_request self gs q gc src) w = (Inr response, u)"
    using assms by (cases "apply_guardrail sv (analyze_request self gs q gc src) w") simp
  show "(\<exists>m d. result_of (analyze_text self sv gs q gc src w) = Inr (True, m, d)) \<longleftrightarrow>
           action response = Some ''NONE''"
    by (simp add: analyze_text_def Let_def result_of_def a split: option.split list.split)
  show "action response = Some ''NONE'' \<Longrightarrow>
           result_of (analyze_text self sv gs q gc src w) = Inr (True, '''', response)"
    by (simp add: analyze_text_def Let_def result_of_def a)
  show "action response = Some ''GUARDRAIL_INTERVENED'' \<Longrightarrow> outputs response = None \<Longrightarrow>
           result_of (analyze_text self sv gs q gc src w) =
             Inr (False, ''Guardrail intervened'', response)"
    by (simp add: analyze_text_def Let_def result_of_def a)
  show "action response = Some ''GUARDRAIL_INTERVENED'' \<Longrightarrow>
         outputs response = Some (out # rest) \<Longrightarrow>
           result_of (analyze_text self sv gs q gc src w) =
             Inr (False, (case out_text out of None \<Rightarrow> ''Guardrail intervened'' | Some t \<Rightarrow> t),
                  response)"
    by (simp add: analyze_text_def Let_def result_of_def a)
  show "action response = Some ''GUARDRAIL_INTERVENED'' \<Longrightarrow> outputs response = Some [] \<Longrightarrow>
           result_of (analyze_text self sv gs q gc src w) = Inl IndexError"
    by (simp add: analyze_text_def Let_def result_of_def a)
  show "action response = Some a \<Longrightarrow> a \<noteq> ''NONE'' \<Longrightarrow> a \<noteq> ''GUARDRAIL_INTERVENED'' \<Longrightarrow>
           result_of (analyze_text self sv gs q gc src w) =
             Inr (False, ''Unknown action: '' @ a, response)"
    by (simp add: analyze_text_def Let_def result_of_def a)
  show "action response = None \<Longrightarrow>
           result_of (analyze_text self sv gs q gc src w) =
             Inr (False, ''Unknown action: '', response)"
    by (simp add: analyze_text_def Let_def result_of_def a)
qed

subsection \<open>Context retrieval\<close>

lemma hit_texts_Inr:
  "hit_texts hs = Inr ts \<Longrightarrow>
     map (\<lambda>h. Option.bind (hit_source h) (\<lambda>src. src ''text'')) hs = map Some ts"
  by (induction hs arbitrary: ts) (auto split: option.splits sum.splits)

text \<open>
  Claim C5. For every query and every \<open>k\<close>: when the embedding model answers and
  \<open>v\<close> is the vector \<^verbatim>\<open>embedder(query)[0][0]\<close>, \<^verbatim>\<open>retrieve_context\<close> first calls the
  embedder on the query and then sends one search with \<open>size = k\<close> and a k-NN clause on
  \<open>v\<close> with \<open>k\<close> neighbours, and nothing else. When the search answers with hits that all
  carry a text, the result is the list of these texts, one per hit and in the order of the
  hits. Against a search service that never returns more hits than the \<open>size\<close> it is
  asked for, the list has at most \<open>k\<close> elements.
\<close>

theorem retrieve_context_embeds_then_searches:
  assumes "embedder sv query w = (Inr emb, w1)"
      and "emb = (v # vs) # rows"
      and "search sv (nb_index_name nb) \<lparr>body_size = k, knn_vector = v, knn_k = k\<rparr> w1 =
             (Inr resp, w2)"
      and "hit_texts (hits_hits resp) = Inr texts"
      and size_honoured:
          "\<And>i body u r u'. search sv i body u = (Inr r, u') \<Longrightarrow>
             int (length (hits_hits r)) \<le> body_size body"
    shows "retrieve_context nb sv query k w =
             (Inr texts,
              [Embed query (Inr emb),
               Search (nb_index_name nb) \<lparr>body_size = k, knn_vector = v, knn_k = k\<rparr> (Inr resp)],
              w2)
         \<and> map Some texts =
             map (\<lambda>h. Option.bind (hit_source h) (\<lambda>src. src ''text'')) (hits_hits resp)
         \<and> int (length texts) \<le> k"
proof -
  have run: "retrieve_context nb sv query k w =
             (Inr texts,
              [Embed query (Inr emb),
               Search (nb_index_name nb) \<lparr>body_size = k, knn_vector = v, knn_k = k\<rparr> (Inr resp)],
              w2)"
    using assms(1-4) by (simp add: retrieve_context_def)
  have texts: "map Some texts =
             map (\<lambda>h. Option.bind (hit_source h) (\<lambda>src. src ''text'')) (hits_hits resp)"
    using hit_texts_Inr[OF assms(4)] by simp
  then have "length texts = length (hits_hits resp)"
    by (metis length_map)
  moreover have "int (length (hits_hits resp)) \<le> k"
    using size_honoured[OF assms(3)] by simp
  ultimately show ?thesis using run texts by simp
qed

text \<open>
  Claim C9. Whatever \<^verbatim>\<open>retrieve_context\<close> (called with its default \<open>k = 3\<close>) returns,
  \<^verbatim>\<open>get_opensearch_vector_context\<close> hands on the first passage only and drops the
  others; on an empty list it returns \<^verbatim>\<open>None\<close>.
\<close>

theorem get_opensearch_vector_context_first_only:
  assumes "retrieve_context nb sv input_query 3 w = (Inr contexts, evs, w')"
  shows "(contexts = [] \<longrightarrow>
            result_of (get_opensearch_vector_context nb sv input_query w) = Inr None)
       \<and> (\<forall>c rest. contexts = c # rest \<longrightarrow>
            result_of (get_opensearch_vector_context nb sv input_query w) = Inr (Some c))"
  using assms by (simp add: get_opensearch_vector_context_def result_of_def)

subsection \<open>The output guardrail of the RAG notebook fails open\<close>

text \<open>
  Claim C8. For every output text: if the \<^verbatim>\<open>apply_guardrail\<close> call raises any
  exception, or if the response has no \<open>outputs\<close> field or an empty one,
  \<^verbatim>\<open>apply_output_guardrail\<close> returns the output text unchanged; otherwise it returns the
  text of the first element of \<open>outputs\<close>. (A first element without text makes the
  function return the output text unchanged as well.)
\<close>

theorem apply_output_guardrail_fails_open:
  "(\<forall>e. fst (apply_guardrail sv (output_request nb output_text) w) = Inl e \<longrightarrow>
        result_of (apply_output_guardrail nb sv output_text w) = output_text)
   \<and> (\<forall>response.
        fst (apply_guardrail sv (output_request nb output_text) w) = Inr response
        \<and> (outputs response = None \<or> outputs response = Some []) \<longrightarrow>
        result_of (apply_output_guardrail nb sv output_text w) = output_text)
   \<and> (\<forall>response out rest t.
        fst (apply_guardrail sv (output_request nb output_text) w) = Inr response
        \<and> outputs response = Some (out # rest) \<and> out_text out = Some t \<longrightarrow>
        result_of (apply_output_guardrail nb sv output_text w) = t)
   \<and> (\<forall>response out rest.
        fst (apply_guardrail sv (output_request nb output_text) w) = Inr response
        \<and> outputs response = Some (out # rest) \<and> out_text out = None \<longrightarrow>
        result_of (apply_output_guardrail nb sv output_text w) = output_text)"
proof -
  obtain r u where a: "apply_guardrail sv (output_request nb output_text) w = (r, u)"
    by (metis prod.exhaust)
  show ?thesis
    unfolding a by (auto simp: apply_output_guardrail_def Let_def result_of_def a)
qed

section \<open>The theorems at work on the concrete environment\<close>

lemmas example_defs = generate_and_analyze_def analyze_prompt_def analyze_output_def
  analyze_text_def analyze_request_def generate_text_def example_self_def init_def
  example_services_def example_guardrail_def example_predict_def
  result_of_def events_of_def world_of_def Let_def

theorem generate_and_analyze_input_guardrail_first_witness:
  "result_of (analyze_prompt example_self example_services ''ctx'' ''unsafe'' 0) =
     Inr (False, ''Sorry, I cannot answer that.'',
          \<lparr>action = Some ''GUARDRAIL_INTERVENED'',
           outputs = Some [\<lparr>out_text = Some ''Sorry, I cannot answer that.''\<rparr>]\<rparr>)
   \<and> result_of (generate_and_analyze example_self example_services ''ctx'' ''unsafe'' 256 0 0) =
     Inr (False, ''Sorry, I cannot answer that.'', '''')
   \<and> GenerationCall \<notin> set (calls (events_of
        (generate_and_analyze example_self example_services ''ctx'' ''unsafe'' 256 0 0)))"
proof -
  have h: "result_of (analyze_prompt example_self example_services ''ctx'' ''unsafe'' 0) =
     Inr (False, ''Sorry, I cannot answer that.'',
          \<lparr>action = Some ''GUARDRAIL_INTERVENED'',
           outputs = Some [\<lparr>out_text = Some ''Sorry, I cannot answer that.''\<rparr>]\<rparr>)"
    by (simp add: example_defs)
  have n: "\<forall>m d. result_of (analyze_prompt example_self example_services ''ctx'' ''unsafe'' 0)
             \<noteq> Inr (True, m, d)"
    unfolding h by simp
  show ?thesis
    using generate_and_analyze_input_guardrail_first
      [of example_self example_services "''ctx''" "''unsafe''" 256 0 0] h n
    by blast
qed

theorem generate_and_analyze_withholds_blocked_output_witness:
  "result_of (analyze_prompt example_self example_services ''ctx'' ''say unsafe'' 0) =
     Inr (True, '''', \<lparr>action = Some ''NONE'', outputs = None\<rparr>)
   \<and> result_of (generate_text example_self example_services ''say unsafe'' 256 0 1) = Inr ''unsafe''
   \<and> result_of (analyze_output example_self example_services ''ctx'' ''say unsafe'' ''unsafe'' 2) =
     Inr (False, ''Sorry, I cannot answer that.'',
          \<lparr>action = Some ''GUARDRAIL_INTERVENED'',
           outputs = Some [\<lparr>out_text = Some ''Sorry, I cannot answer that.''\<rparr>]\<rparr>)
   \<and> result_of (generate_and_analyze example_self example_services ''ctx'' ''say unsafe'' 256 0 0) =
     Inr (False, ''Sorry, I cannot answer that.'', '''')"
proof -
  have h1: "result_of (analyze_prompt example_self example_services ''ctx'' ''say unsafe'' 0) =
     Inr (True, '''', \<lparr>action = Some ''NONE'', outputs = None\<rparr>)"
    by (simp add: example_defs)
  have h2: "generate_text example_self example_services ''say unsafe'' 256 0
              (world_of (analyze_prompt example_self example_services ''ctx'' ''say unsafe'' 0)) =
            (Inr ''unsafe'',
             events_of (generate_text example_self example_services ''say unsafe'' 256 0 1), 2)"
    by (simp add: example_defs)
  have h2': "result_of (generate_text example_self example_services ''say unsafe'' 256 0 1) = Inr ''unsafe''"
    by (simp add: example_defs)
  have h3: "result_of (analyze_output example_self example_services ''ctx'' ''say unsafe'' ''unsafe'' 2) =
     Inr (False, ''Sorry, I cannot answer that.'',
          \<lparr>action = Some ''GUARDRAIL_INTERVENED'',
           outputs = Some [\<lparr>out_text = Some ''Sorry, I cannot answer that.''\<rparr>]\<rparr>)"
    by (simp add: example_defs)
  show ?thesis
    using generate_and_analyze_withholds_blocked_output [OF h1 h2 h3] h1 h2' h3 by simp
qed

theorem generate_and_analyze_returns_generated_text_witness:
  "result_of (generate_and_analyze example_self example_services ''ctx'' ''capital of France?'' 256 0 0)
     = Inr (True, '''', ''Paris'')
   \<and> result_of (generate_and_analyze example_self example_services ''ctx'' ''say nothing'' 256 0 0)
     = Inr (True, '''', '''')"
proof -
  have p1: "result_of (analyze_prompt example_self example_services ''ctx'' ''capital of France?'' 0) =
     Inr (True, '''', \<lparr>action = Some ''NONE'', outputs = None\<rparr>)"
    by (simp add: example_defs)
  have p2: "predict example_services (endpoint_name example_self)
             \<lparr>payload_inputs = ''capital of France?'',
              payload_parameters = \<lparr>param_max_new_tokens = 256, param_temperature = 0,
                                     param_stop = ''<|eot_id|>''\<rparr>\<rparr>
             (world_of (analyze_prompt example_self example_services ''ctx'' ''capital of France?'' 0))
            = (Inr [''generated_text'' \<mapsto> ''Paris''], 2)"
    by (simp add: example_defs)
  have p3: "''Paris'' = (case [''generated_text'' \<mapsto> ''Paris''] ''generated_text'' of
                           None \<Rightarrow> '''' | Some t \<Rightarrow> t)"
    by simp
  have p4: "result_of (analyze_output example_self example_services ''ctx'' ''capital of France?'' ''Paris'' 2) =
     Inr (True, '''', \<lparr>action = Some ''NONE'', outputs = None\<rparr>)"
    by (simp add: example_defs)
  have n1: "result_of (analyze_prompt example_self example_services ''ctx'' ''say nothing'' 0) =
     Inr (True, '''', \<lparr>action = Some ''NONE'', outputs = None\<rparr>)"
    by (simp add: example_defs)
  have n2: "predict example_services (endpoint_name example_self)
             \<lparr>payload_inputs = ''say nothing'',
              payload_parameters = \<lparr>param_max_new_tokens = 256, param_temperature = 0,
                                     param_stop = ''<|eot_id|>''\<rparr>\<rparr>
             (world_of (analyze_prompt example_self example_services ''ctx'' ''say nothing'' 0))
            = (Inr Map.empty, 2)"
    by (simp add: example_defs)
  have n3: "'''' = (case (Map.empty :: string \<rightharpoonup> string) ''generated_text'' of
                      None \<Rightarrow> '''' | Some t \<Rightarrow> t)"
    by simp
  have n4: "result_of (analyze_output example_self example_services ''ctx'' ''say nothing'' '''' 2) =
     Inr (True, '''', \<lparr>action = Some ''NONE'', outputs = None\<rparr>)"
    by (simp add: example_defs)
  show ?thesis
    using generate_and_analyze_returns_generated_text [OF p1 p2 p3 p4]
      generate_and_analyze_returns_generated_text [OF n1 n2 n3 n4]
    by simp
qed

theorem generate_and_analyze_deterministic_witness:
  "responses (events_of
     (generate_and_analyze example_self example_services ''ctx'' ''say unsafe'' 256 0 0)) =
   responses (events_of
     (generate_and_analyze example_self example_services ''ctx'' ''say unsafe'' 256 0
        (world_of (generate_and_analyze example_self example_services ''ctx'' ''say unsafe'' 256 0 0))))
   \<and> result_of
     (generate_and_analyze example_self example_services ''ctx'' ''say unsafe'' 256 0 0) =
   result_of
     (generate_and_analyze example_self example_services ''ctx'' ''say unsafe'' 256 0
        (world_of (generate_and_analyze example_self example_services ''ctx'' ''say unsafe'' 256 0 0)))"
proof -
  have h: "responses (events_of
     (generate_and_analyze example_self example_services ''ctx'' ''say unsafe'' 256 0 0)) =
   responses (events_of
     (generate_and_analyze example_self example_services ''ctx'' ''say unsafe'' 256 0
        (world_of (generate_and_analyze example_self example_services ''ctx'' ''say unsafe'' 256 0 0))))"
    by (simp add: example_defs)
  show ?thesis
    using generate_and_analyze_deterministic [OF h] h by (rule_tac conjI)
qed

theorem analyze_text_client_error_propagates_witness:
  "fst (apply_guardrail example_services
          (analyze_request example_self ''ctx'' ''outage'' ''outage'' ''INPUT'') 0)
     = Inl (ClientError ''ThrottlingException'')
   \<and> result_of (analyze_text example_self example_services ''ctx'' ''outage'' ''outage'' ''INPUT'' 0)
     = Inl (ClientError ''ThrottlingException'')
   \<and> ApplyGuardrail (analyze_request example_self ''ctx'' ''say outage'' ''outage'' ''OUTPUT'')
        (Inl (ClientError ''ThrottlingException''))
      \<in> set (events_of
          (generate_and_analyze example_self example_services ''ctx'' ''say outage'' 256 0 0))
   \<and> result_of (generate_and_analyze example_self example_services ''ctx'' ''say outage'' 256 0 0)
     = Inl (ClientError ''ThrottlingException'')"
proof -
  have h1: "fst (apply_guardrail example_services
          (analyze_request example_self ''ctx'' ''outage'' ''outage'' ''INPUT'') 0)
     = Inl (ClientError ''ThrottlingException'')"
    by (simp add: example_defs)
  have h2: "ApplyGuardrail (analyze_request example_self ''ctx'' ''say outage'' ''outage'' ''OUTPUT'')
        (Inl (ClientError ''ThrottlingException''))
      \<in> set (events_of
          (generate_and_analyze example_self example_services ''ctx'' ''say outage'' 256 0 0))"
    by (simp add: example_defs)
  note t = analyze_text_client_error_propagates
    [where sv = example_services and self = example_self and gs = "''ctx''"
       and m = "''ThrottlingException''" and w = 0 and mnt = 256 and temp = 0]
  show ?thesis
    using t [where q = "''outage''" and gc = "''outage''" and src = "''INPUT''"]
      t [where q = "''say outage''"
           and req = "analyze_request example_self ''ctx'' ''say outage'' ''outage'' ''OUTPUT''"]
      h1 h2
    by blast
qed

text \<open>
  Claim C4. The claim promises, for the action \<open>GUARDRAIL_INTERVENED\<close>, the result
  \<open>False\<close> with the default message when no output text is present. On the answer
  \<^verbatim>\<open>{"action": "GUARDRAIL_INTERVENED", "outputs": []}\<close> the code evaluates
  \<^verbatim>\<open>response.get("outputs", [{}])[0]\<close> on the empty list that is present: it raises
  \<^verbatim>\<open>IndexError\<close>, which the handler for \<^verbatim>\<open>ClientError\<close> does not catch, and returns
  nothing.
\<close>

theorem analyze_text_empty_outputs_raises:
  "fst (apply_guardrail example_services
          (analyze_request example_self ''ctx'' ''void'' ''void'' ''INPUT'') 0) =
     Inr \<lparr>action = Some ''GUARDRAIL_INTERVENED'', outputs = Some []\<rparr>
   \<and> result_of (analyze_text example_self example_services ''ctx'' ''void'' ''void'' ''INPUT'' 0) =
     Inl IndexError"
  by (simp add: example_defs)

lemmas nb_defs = retrieve_context_def get_opensearch_vector_context_def apply_output_guardrail_def
  output_request_def example_notebook_def example_services_def example_guardrail_def
  example_embedder_def example_search_def example_corpus_def
  result_of_def events_of_def world_of_def Let_def

theorem retrieve_context_embeds_then_searches_witness:
  "retrieve_context example_notebook example_services ''what is RAG?'' 3 0 =
     (Inr [''first passage'', ''second passage'', ''third passage''],
      [Embed ''what is RAG?'' (Inr [[[1, 0], [0, 1]]]),
       Search ''rag-index'' \<lparr>body_size = 3, knn_vector = [1, 0], knn_k = 3\<rparr>
         (Inr \<lparr>hits_hits = take 3 example_corpus\<rparr>)],
      2)
   \<and> int (length [''first passage'', ''second passage'', ''third passage'']) \<le> 3"
proof -
  have h1: "embedder example_services ''what is RAG?'' 0 = (Inr [[[1, 0], [0, 1]]], 1)"
    by (simp add: nb_defs)
  have h2: "[[[1, 0], [0, 1]]] = ([1, 0 :: real] # [[0, 1]]) # []"
    by simp
  have h3: "search example_services (nb_index_name example_notebook)
              \<lparr>body_size = 3, knn_vector = [1, 0], knn_k = 3\<rparr> 1 =
            (Inr \<lparr>hits_hits = take 3 example_corpus\<rparr>, 2)"
    by (simp add: nb_defs)
  have h4: "hit_texts (hits_hits \<lparr>hits_hits = take 3 example_corpus\<rparr>) =
              Inr [''first passage'', ''second passage'', ''third passage'']"
    by (simp add: nb_defs)
  have h5: "int (length (hits_hits r)) \<le> body_size body"
    if "search example_services i body u = (Inr r, u')" for i body u r u'
    using that
    by (auto simp: example_services_def example_search_def split: if_splits)
  show ?thesis
    using retrieve_context_embeds_then_searches [OF h1 h2 h3 h4 h5]
    by (simp add: example_notebook_def)
qed

theorem get_opensearch_vector_context_first_only_witness:
  "result_of (retrieve_context example_notebook example_services ''what is RAG?'' 3 0) =
     Inr [''first passage'', ''second passage'', ''third passage'']
   \<and> result_of (get_opensearch_vector_context example_notebook example_services ''what is RAG?'' 0) =
     Inr (Some ''first passage'')
   \<and> result_of (retrieve_context (example_notebook\<lparr>nb_index_name := ''empty-index''\<rparr>)
        example_services ''what is RAG?'' 3 0) = Inr []
   \<and> result_of (get_opensearch_vector_context (example_notebook\<lparr>nb_index_name := ''empty-index''\<rparr>)
        example_services ''what is RAG?'' 0) = Inr None"
proof -
  have h1: "retrieve_context example_notebook example_services ''what is RAG?'' 3 0 =
     (Inr [''first passage'', ''second passage'', ''third passage''],
      events_of (retrieve_context example_notebook example_services ''what is RAG?'' 3 0), 2)"
    by (simp add: nb_defs)
  have h2: "retrieve_context (example_notebook\<lparr>nb_index_name := ''empty-index''\<rparr>)
        example_services ''what is RAG?'' 3 0 =
     (Inr [],
      events_of (retrieve_context (example_notebook\<lparr>nb_index_name := ''empty-index''\<rparr>)
        example_services ''what is RAG?'' 3 0), 2)"
    by (simp add: nb_defs)
  have r1: "result_of (retrieve_context example_notebook example_services ''what is RAG?'' 3 0) =
     Inr [''first passage'', ''second passage'', ''third passage'']"
    by (simp add: nb_defs)
  have r2: "result_of (retrieve_context (example_notebook\<lparr>nb_index_name := ''empty-index''\<rparr>)
        example_services ''what is RAG?'' 3 0) = Inr []"
    by (simp add: nb_defs)
  show ?thesis
    using get_opensearch_vector_context_first_only [OF h1]
      get_opensearch_vector_context_first_only [OF h2] r1 r2 by simp
qed

theorem apply_output_guardrail_fails_open_witness:
  "result_of (apply_output_guardrail example_notebook example_services ''outage'' 0) = ''outage''
   \<and> result_of (apply_output_guardrail example_notebook example_services ''fine'' 0) = ''fine''
   \<and> result_of (apply_output_guardrail example_notebook example_services ''void'' 0) = ''void''
   \<and> result_of (apply_output_guardrail example_notebook example_services ''unsafe'' 0) =
       ''Sorry, I cannot answer that.''"
proof -
  have h1: "fst (apply_guardrail example_services (output_request example_notebook ''outage'') 0) =
              Inl (ClientError ''ThrottlingException'')"
    by (simp add: nb_defs)
  have h2: "fst (apply_guardrail example_services (output_request example_notebook ''fine'') 0) =
              Inr \<lparr>action = Some ''NONE'', outputs = None\<rparr>
            \<and> (outputs \<lparr>action = Some ''NONE'', outputs = None\<rparr> = None
               \<or> outputs \<lparr>action = Some ''NONE'', outputs = None\<rparr> = Some [])"
    by (simp add: nb_defs)
  have h3: "fst (apply_guardrail example_services (output_request example_notebook ''void'') 0) =
              Inr \<lparr>action = Some ''GUARDRAIL_INTERVENED'', outputs = Some []\<rparr>
            \<and> (outputs \<lparr>action = Some ''GUARDRAIL_INTERVENED'', outputs = Some []\<rparr> = None
               \<or> outputs \<lparr>action = Some ''GUARDRAIL_INTERVENED'', outputs = Some []\<rparr> = Some [])"
    by (simp add: nb_defs)
  have h4: "fst (apply_guardrail example_services (output_request example_notebook ''unsafe'') 0) =
              Inr \<lparr>action = Some ''GUARDRAIL_INTERVENED'',
                   outputs = Some [\<lparr>out_text = Some ''Sorry, I cannot answer that.''\<rparr>]\<rparr>
            \<and> outputs \<lparr>action = Some ''GUARDRAIL_INTERVENED'',
                   outputs = Some [\<lparr>out_text = Some ''Sorry, I cannot answer that.''\<rparr>]\<rparr> =
                Some (\<lparr>out_text = Some ''Sorry, I cannot answer that.''\<rparr> # [])
            \<and> out_text \<lparr>out_text = Some ''Sorry, I cannot answer that.''\<rparr> =
                Some ''Sorry, I cannot answer that.''"
    by (simp add: nb_defs)
  note t = apply_output_guardrail_fails_open
    [where sv = example_services and nb = example_notebook and w = 0]
  have c1: "result_of (apply_output_guardrail example_notebook example_services ''outage'' 0) = ''outage''"
    using t [where output_text = "''outage''"] h1 by blast
  have c2: "result_of (apply_output_guardrail example_notebook example_services ''fine'' 0) = ''fine''"
    using t [where output_text = "''fine''"] h2 by blast
  have c3: "result_of (apply_output_guardrail example_notebook example_services ''void'' 0) = ''void''"
    using t [where output_text = "''void''"] h3 by blast
  have c4: "result_of (apply_output_guardrail example_notebook example_services ''unsafe'' 0) =
       ''Sorry, I cannot answer that.''"
    using t [where output_text = "''unsafe''"] h4 by blast
  show ?thesis
    using c1 c2 c3 c4 by simp
qed


end
